theory Spec2Isabelle
  imports Complex_Main
begin

section \<open>The analysis document: Python values produced by \<open>json.load\<close>\<close>

text \<open>
  \<open>json.load\<close> yields \<open>None\<close>, \<open>bool\<close>, \<open>int\<close> (unbounded), \<open>float\<close>,
  \<open>str\<close>, \<open>list\<close> and \<open>dict\<close> with string keys. A finite float is modelled by the
  rational number it denotes; negative zero, the infinities and NaN (all of which
  \<open>json.load\<close> accepts) are separate constructors. A \<open>str\<close> is a \<open>string\<close> holding
  the UTF-8 bytes of the text; a \<open>dict\<close> is an association list in insertion order,
  looked up with \<open>map_of\<close>.
\<close>

datatype pyfloat = Finite rat | NegZero | PosInf | NegInf | NaN

datatype json =
    JNull
  | JBool bool
  | JInt int
  | JFloat pyfloat
  | JStr string
  | JArr "json list"
  | JObj "(string \<times> json) list"

datatype py_error = AttributeError | TypeError | KeyError | IndexError | ValueError | OverflowError

type_synonym 'a result = "py_error + 'a"

definition py_bind :: "'a result \<Rightarrow> ('a \<Rightarrow> 'b result) \<Rightarrow> 'b result" where
  "py_bind x f = (case x of Inl e \<Rightarrow> Inl e | Inr v \<Rightarrow> f v)"

subsection \<open>Built-in operations the program applies to document values\<close>

text \<open>Truth value testing (\<open>if x\<close>, \<open>x or y\<close>, \<open>not x\<close>).\<close>

fun float_truthy :: "pyfloat \<Rightarrow> bool" where
  "float_truthy (Finite q) = (q \<noteq> 0)"
| "float_truthy NegZero = False"
| "float_truthy PosInf = True"
| "float_truthy NegInf = True"
| "float_truthy NaN = True"

fun truthy :: "json \<Rightarrow> bool" where
  "truthy JNull = False"
| "truthy (JBool b) = b"
| "truthy (JInt n) = (n \<noteq> 0)"
| "truthy (JFloat f) = float_truthy f"
| "truthy (JStr s) = (s \<noteq> [])"
| "truthy (JArr xs) = (xs \<noteq> [])"
| "truthy (JObj kvs) = (kvs \<noteq> [])"

text \<open>\<open>v.get(k, dflt)\<close>: only a \<open>dict\<close> has the attribute \<open>get\<close>.\<close>

fun py_get :: "json \<Rightarrow> string \<Rightarrow> json \<Rightarrow> json result" where
  "py_get (JObj kvs) k dflt = Inr (case map_of kvs k of Some x \<Rightarrow> x | None \<Rightarrow> dflt)"
| "py_get _ k dflt = Inl AttributeError"

text \<open>\<open>v.startswith(p)\<close>: only a \<open>str\<close> has the attribute \<open>startswith\<close>.\<close>

definition starts_with :: "string \<Rightarrow> string \<Rightarrow> bool" where
  "starts_with s p = (take (length p) s = p)"

fun py_startswith :: "json \<Rightarrow> string \<Rightarrow> bool result" where
  "py_startswith (JStr s) p = Inr (starts_with s p)"
| "py_startswith _ p = Inl AttributeError"

text \<open>
  \<open>v[0]\<close>. The first character of a \<open>str\<close> is its first UTF-8 sequence: a leading
  byte and the continuation bytes (\<open>0x80\<close> to \<open>0xBF\<close>) after it. A \<open>dict\<close> from JSON has
  string keys only, so the key \<open>0\<close> is never present.
\<close>

definition is_continuation :: "char \<Rightarrow> bool" where
  "is_continuation c = (128 \<le> (of_char c :: nat) \<and> (of_char c :: nat) < 192)"

fun py_index0 :: "json \<Rightarrow> json result" where
  "py_index0 (JArr []) = Inl IndexError"
| "py_index0 (JArr (x # xs)) = Inr x"
| "py_index0 (JStr []) = Inl IndexError"
| "py_index0 (JStr (c # cs)) = Inr (JStr (c # takeWhile is_continuation cs))"
| "py_index0 (JObj kvs) = Inl KeyError"
| "py_index0 _ = Inl TypeError"

text \<open>
  \<open>k in v\<close> for a string \<open>k\<close>: a key of a \<open>dict\<close>, an element of a \<open>list\<close>, a substring
  of a \<open>str\<close>; any other value is not iterable.
\<close>

fun is_substring :: "string \<Rightarrow> string \<Rightarrow> bool" where
  "is_substring p [] = (p = [])"
| "is_substring p (c # cs) = (starts_with (c # cs) p \<or> is_substring p cs)"

fun py_contains :: "json \<Rightarrow> string \<Rightarrow> bool result" where
  "py_contains (JObj kvs) k = Inr (map_of kvs k \<noteq> None)"
| "py_contains (JArr xs) k = Inr (JStr k \<in> set xs)"
| "py_contains (JStr s) k = Inr (is_substring k s)"
| "py_contains _ k = Inl TypeError"

text \<open>
  What the program takes from its runtime: the clock reading
  \<open>datetime.now().isoformat()\<close>; the text \<open>str\<close> gives for a float, a list or a
  dict (their \<open>repr\<close>); \<open>json.dumps(data, indent=2)\<close>; and the string methods
  \<open>str.strip()\<close> and \<open>str.lower()\<close>, which follow the Unicode tables of the
  interpreter.
\<close>

record runtime =
  now_isoformat :: string
  py_repr :: "json \<Rightarrow> string"
  json_dumps :: "json \<Rightarrow> string"
  str_strip :: "string \<Rightarrow> string"
  str_lower :: "string \<Rightarrow> string"

section \<open>Company name resolver\<close>

definition blocklist :: "string list" where
  "blocklist = [''unknown'', ''n/a'', ''na'', ''company'', ''-'', ''null'']"

text \<open>The test applied to one candidate inside the loop.\<close>

fun qualifies :: "runtime \<Rightarrow> json \<Rightarrow> string option" where
  "qualifies rt (JStr c) =
     (let s = str_strip rt c
      in if s \<noteq> [] \<and> str_lower rt s \<notin> set blocklist then Some s else None)"
| "qualifies rt _ = None"

text \<open>The loop \<open>for c in candidates\<close>, leaving at the first candidate that qualifies.\<close>

fun first_qualifying :: "runtime \<Rightarrow> json list \<Rightarrow> string \<Rightarrow> string" where
  "first_qualifying rt [] dflt = dflt"
| "first_qualifying rt (c # cs) dflt =
     (case qualifies rt c of Some s \<Rightarrow> s | None \<Rightarrow> first_qualifying rt cs dflt)"

fun resolve_company_name :: "runtime \<Rightarrow> json \<Rightarrow> string \<Rightarrow> string result" where
  "resolve_company_name rt (JObj kvs) dflt =
     py_bind (py_get (JObj kvs) ''report_info'' (JObj [])) (\<lambda>ri.
     let r = (if truthy ri then ri else JObj []) in
     py_bind (py_get r ''company_name'' JNull) (\<lambda>c1.
     py_bind (py_get r ''company'' JNull) (\<lambda>c2.
     py_bind (py_get r ''entity_name'' JNull) (\<lambda>c3.
     py_bind (py_get (JObj kvs) ''company_name'' JNull) (\<lambda>c4.
     py_bind (py_get (JObj kvs) ''company'' JNull) (\<lambda>c5.
     py_bind (py_get (JObj kvs) ''entity_name'' JNull) (\<lambda>c6.
     Inr (first_qualifying rt [c1, c2, c3, c4, c5, c6] dflt))))))))"
| "resolve_company_name rt _ dflt = Inr dflt"

section \<open>Schema detection\<close>

definition detect_schema_version :: "json \<Rightarrow> string result" where
  "detect_schema_version data =
     py_bind (py_get data ''report_info'' (JObj [])) (\<lambda>ri.
     py_bind (py_get ri ''schema_version'' (JStr [])) (\<lambda>schema_version.
     py_bind (py_startswith schema_version ''5.'') (\<lambda>is5.
     if is5 then Inr ''5.0'' else
     py_bind (py_get data ''recurring_payments'' JNull) (\<lambda>rp.
     py_bind (if truthy rp then Inr rp else py_get data ''non_bank_financing'' JNull) (\<lambda>rp_or_nbf.
     if truthy rp_or_nbf then Inr ''5.0'' else
     py_bind (py_get data ''accounts'' (JArr [])) (\<lambda>accounts.
     if truthy accounts then
       py_bind (py_index0 accounts) (\<lambda>account0.
       py_bind (py_get account0 ''monthly_summary'' (JArr [])) (\<lambda>monthly.
       if truthy monthly then
         py_bind (py_index0 monthly) (\<lambda>month0.
         py_bind (py_contains month0 ''highest_intraday'') (\<lambda>has_intraday.
         if has_intraday then Inr ''5.0'' else Inr ''4.0''))
       else Inr ''4.0''))
     else Inr ''4.0''))))))"

section \<open>Text of values: \<open>str\<close>, \<open>len\<close>, iteration and the format \<open>.0f\<close>\<close>

text \<open>The decimal digits of an integer, as \<open>str\<close> prints them.\<close>

definition digit_char :: "int \<Rightarrow> char" where
  "digit_char n = ''0123456789'' ! nat n"

function show_digits :: "int \<Rightarrow> string" where
  "show_digits n =
     (if n < 10 then [digit_char n] else show_digits (n div 10) @ [digit_char (n mod 10)])"
  by pat_completeness auto
termination
  by (relation "measure nat") auto

definition show_int :: "int \<Rightarrow> string" where
  "show_int i = (if i < 0 then ''-'' @ show_digits (- i) else show_digits i)"

text \<open>\<open>str(v)\<close>, which is also what an f-string field without a format gives.\<close>

fun py_str :: "runtime \<Rightarrow> json \<Rightarrow> string" where
  "py_str rt (JStr s) = s"
| "py_str rt (JInt n) = show_int n"
| "py_str rt (JBool b) = (if b then ''True'' else ''False'')"
| "py_str rt JNull = ''None''"
| "py_str rt v = py_repr rt v"

text \<open>
  \<open>len(v)\<close>: the characters of a \<open>str\<close> are its UTF-8 sequences; the association
  list of a parsed \<open>dict\<close> has one entry for each key.
\<close>

fun py_len :: "json \<Rightarrow> nat result" where
  "py_len (JArr xs) = Inr (length xs)"
| "py_len (JStr s) = Inr (length (filter (\<lambda>c. \<not> is_continuation c) s))"
| "py_len (JObj kvs) = Inr (length kvs)"
| "py_len _ = Inl TypeError"

text \<open>\<open>for o in v\<close>: the elements of a list, the characters of a string, the keys of a dict.\<close>

function utf8_chars :: "string \<Rightarrow> string list" where
  "utf8_chars [] = []"
| "utf8_chars (c # cs) =
     (c # takeWhile is_continuation cs) # utf8_chars (dropWhile is_continuation cs)"
  by pat_completeness auto
termination
  by (relation "measure length") (auto simp: length_dropWhile_le less_Suc_eq_le)

fun py_iter :: "json \<Rightarrow> json list result" where
  "py_iter (JArr xs) = Inr xs"
| "py_iter (JStr s) = Inr (map JStr (utf8_chars s))"
| "py_iter (JObj kvs) = Inr (map (\<lambda>kv. JStr (fst kv)) kvs)"
| "py_iter _ = Inl TypeError"

text \<open>
  \<open>float(n)\<close> for an \<open>int\<close>: the nearest double, ties to the even significand of 53
  bits, and \<open>OverflowError\<close> beyond the largest double.
\<close>

function bit_length :: "int \<Rightarrow> nat" where
  "bit_length n = (if n \<le> 0 then 0 else Suc (bit_length (n div 2)))"
  by pat_completeness auto
termination
  by (relation "measure nat") auto

definition nearest_double :: "int \<Rightarrow> int" where
  "nearest_double a =
     (let e = bit_length a - 53;
          q = a div 2 ^ e;
          r = a mod 2 ^ e;
          m = (if 2 * r < 2 ^ e then q
               else if 2 ^ e < 2 * r then q + 1
               else if even q then q else q + 1)
      in m * 2 ^ e)"

definition int_to_float :: "int \<Rightarrow> pyfloat result" where
  "int_to_float n =
     (let v = nearest_double \<bar>n\<bar>
      in if 2 ^ 1024 \<le> v then Inl OverflowError
         else Inr (Finite (of_int (sgn n * v))))"

text \<open>
  The format \<open>.0f\<close>: a float is printed as the nearest integer, ties to even, with the
  sign of the float; an \<open>int\<close> or \<open>bool\<close> is converted to a float first; a \<open>str\<close>
  rejects the format code, the other types reject any format.
\<close>

definition round_half_even :: "rat \<Rightarrow> int" where
  "round_half_even q =
     (let f = \<lfloor>q\<rfloor>; r = q - of_int f
      in if r < 1 / 2 then f
         else if 1 / 2 < r then f + 1
         else if even f then f else f + 1)"

fun float_0f :: "pyfloat \<Rightarrow> string" where
  "float_0f (Finite q) =
     (if q < 0 then ''-'' else '''') @ show_digits (round_half_even \<bar>q\<bar>)"
| "float_0f NegZero = ''-0''"
| "float_0f PosInf = ''inf''"
| "float_0f NegInf = ''-inf''"
| "float_0f NaN = ''nan''"

fun format_0f :: "json \<Rightarrow> string result" where
  "format_0f (JFloat x) = Inr (float_0f x)"
| "format_0f (JInt n) = py_bind (int_to_float n) (\<lambda>x. Inr (float_0f x))"
| "format_0f (JBool b) = py_bind (int_to_float (if b then 1 else 0)) (\<lambda>x. Inr (float_0f x))"
| "format_0f (JStr s) = Inl ValueError"
| "format_0f _ = Inl TypeError"

text \<open>\<open>s.replace(' ', '_')\<close>.\<close>

definition replace_spaces :: "string \<Rightarrow> string" where
  "replace_spaces s = map (\<lambda>c. if c = CHR '' '' then CHR ''_'' else c) s"

section \<open>The standalone HTML report\<close>

text \<open>The two characters of the template outside ASCII, in UTF-8.\<close>

definition arrow :: string where
  "arrow = [CHR 0xE2, CHR 0x86, CHR 0x92]"

definition em_dash :: string where
  "em_dash = [CHR 0xE2, CHR 0x80, CHR 0x94]"

definition unlines :: "string list \<Rightarrow> string" where
  "unlines ls = concat (map (\<lambda>l. l @ [CHR 0x0A]) ls)"

text \<open>The text put in place of each replacement field of the f-string.\<close>

record slots =
  company_slot :: string
  period_start_slot :: string
  period_end_slot :: string
  total_months_slot :: string
  int_score_slot :: string
  int_rating_slot :: string
  vol_index_slot :: string
  vol_level_slot :: string
  kite_score_slot :: string
  kite_level_slot :: string
  observation_items_slot :: string

text \<open>
  The template, line by line: the text after the opening quotes is a newline, and
  every line ends with one. The doubled braces of the f-string are single braces.
\<close>

definition report_lines :: "slots \<Rightarrow> string list" where
  \<open>report_lines s =
     [''<!DOCTYPE html>'',
      ''<html>'',
      ''<head>'',
      ''<meta charset="utf-8">'',
      ''<title>Bank Statement Analysis - '' @ company_slot s @ ''</title>'',
      ''<style>'',
      ''body {'',
      ''    font-family: Arial, sans-serif;'',
      ''    background: #0f172a;'',
      ''    color: #e5e7eb;'',
      ''    padding: 2rem;'',
      ''}'',
      ''.card {'',
      ''    background: #020617;'',
      ''    padding: 1.5rem;'',
      ''    border-radius: 12px;'',
      ''    margin-bottom: 1rem;'',
      ''}'',
      ''h1,h2 {'',
      ''    color: #22c55e;'',
      ''}'',
      ''</style>'',
      ''</head>'',
      ''<body>'',
      [],
      ''<h1>'' @ company_slot s @ ''</h1>'',
      ''<p>Period: '' @ period_start_slot s @ '' '' @ arrow @ '' '' @ period_end_slot s @ '' ('' @ total_months_slot s @ '' months)</p>'',
      [],
      ''<div class="card">'',
      ''<h2>Integrity Score</h2>'',
      ''<p>'' @ int_score_slot s @ ''% '' @ em_dash @ '' '' @ int_rating_slot s @ ''</p>'',
      ''</div>'',
      [],
      ''<div class="card">'',
      ''<h2>Volatility</h2>'',
      ''<p>'' @ vol_index_slot s @ ''% '' @ em_dash @ '' '' @ vol_level_slot s @ ''</p>'',
      ''</div>'',
      [],
      ''<div class="card">'',
      ''<h2>Kite Flying Risk</h2>'',
      ''<p>'' @ kite_score_slot s @ '' '' @ em_dash @ '' '' @ kite_level_slot s @ ''</p>'',
      ''</div>'',
      [],
      ''<div class="card">'',
      ''<h2>Observations</h2>'',
      ''<ul>'',
      observation_items_slot s,
      ''</ul>'',
      ''</div>'',
      []]\<close>

definition footer_lines :: "string \<Rightarrow> string list" where
  \<open>footer_lines now =
     [''<footer style="margin-top:3rem;color:#94a3b8;font-size:0.8rem">'',
      ''Generated '' @ now,
      ''</footer>'',
      [],
      ''</body>'',
      ''</html>'']\<close>

definition html_template :: "slots \<Rightarrow> string \<Rightarrow> string" where
  "html_template s now = [CHR 0x0A] @ unlines (report_lines s @ footer_lines now)"

text \<open>
  The body of \<open>generate_interactive_html\<close> up to the template: the assignments in
  the order of the source, then the replacement fields in the order the f-string
  evaluates them. \<open>str\<close> of a value cannot fail; the format \<open>.0f\<close>, the
  \<open>get\<close> on \<open>observations\<close> and the iteration can.
\<close>

definition template_slots :: "runtime \<Rightarrow> json \<Rightarrow> slots result" where
  "template_slots rt data =
     py_bind (detect_schema_version data) (\<lambda>schema_version.
     py_bind (py_get data ''report_info'' (JObj [])) (\<lambda>r.
     py_bind (py_get data ''accounts'' (JArr [])) (\<lambda>accounts.
     py_bind (py_get data ''consolidated'' (JObj [])) (\<lambda>consolidated.
     py_bind (py_get data ''flags'' (JObj [])) (\<lambda>flags.
     py_bind (py_get data ''integrity_score'' (JObj [])) (\<lambda>integrity.
     py_bind (py_get data ''volatility'' (JObj [])) (\<lambda>volatility.
     py_bind (py_get data ''kite_flying'' (JObj [])) (\<lambda>kite.
     py_bind (py_get data ''observations'' (JObj [])) (\<lambda>observations.
     py_bind (py_get data ''recommendations'' (JArr [])) (\<lambda>recommendations.
     py_bind (resolve_company_name rt data ''Company'') (\<lambda>company.
     py_bind (py_get r ''period_start'' (JStr [])) (\<lambda>period_start.
     py_bind (py_get r ''period_end'' (JStr [])) (\<lambda>period_end.
     py_bind (py_get r ''total_months'' (JInt 0)) (\<lambda>total_months.
     py_bind (py_get integrity ''score'' (JInt 0)) (\<lambda>int_score.
     py_bind (py_get integrity ''rating'' (JStr ''N/A'')) (\<lambda>int_rating.
     py_bind (py_get volatility ''overall_index'' (JInt 0)) (\<lambda>vol_index.
     py_bind (py_get volatility ''overall_level'' (JStr ''LOW'')) (\<lambda>vol_level.
     py_bind (py_get kite ''risk_score'' (JInt 0)) (\<lambda>kite_score.
     py_bind (py_get kite ''risk_level'' (JStr ''LOW'')) (\<lambda>kite_level.
     py_bind (format_0f vol_index) (\<lambda>vol_index_text.
     py_bind (py_get observations ''positive'' (JArr [])) (\<lambda>positive.
     py_bind (py_iter positive) (\<lambda>os.
     Inr \<lparr>company_slot = company,
          period_start_slot = py_str rt period_start,
          period_end_slot = py_str rt period_end,
          total_months_slot = py_str rt total_months,
          int_score_slot = py_str rt int_score,
          int_rating_slot = py_str rt int_rating,
          vol_index_slot = vol_index_text,
          vol_level_slot = py_str rt vol_level,
          kite_score_slot = py_str rt kite_score,
          kite_level_slot = py_str rt kite_level,
          observation_items_slot =
            concat (map (\<lambda>item. ''<li>'' @ py_str rt item @ ''</li>'') os)\<rparr>
     )))))))))))))))))))))))"

definition generate_interactive_html :: "runtime \<Rightarrow> json \<Rightarrow> string result" where
  "generate_interactive_html rt data =
     py_bind (template_slots rt data) (\<lambda>s. Inr (html_template s (now_isoformat rt)))"

section \<open>The Streamlit script\<close>

text \<open>
  What the file uploader and \<open>json.load\<close> hand to the script: no file, a file
  that is not JSON (with the text of the exception), or the parsed value.
\<close>

datatype upload = NoFile | InvalidJson string | ParsedJson json

text \<open>The Streamlit calls of the script, in the order they are made.\<close>

datatype ui =
    SetPageConfig string string string
  | StTitle string
  | StCaption string
  | StFileUploader string "string list"
  | StError string
  | StInfo string
  | StSuccess string
  | StMarkdown string
  | StColumns nat
  | StMetric string json
  | StDownloadButton string string string string

datatype outcome = Finished | Stopped | Raised py_error

type_synonym run = "ui list \<times> outcome"

definition emit :: "ui \<Rightarrow> run \<Rightarrow> run" where
  "emit e k = (e # fst k, snd k)"

definition attempt :: "'a result \<Rightarrow> ('a \<Rightarrow> run) \<Rightarrow> run" where
  "attempt x k = (case x of Inl e \<Rightarrow> ([], Raised e) | Inr v \<Rightarrow> k v)"

text \<open>The pictographs of the labels, in UTF-8.\<close>

definition bank_icon :: string where
  "bank_icon = [CHR 0xF0, CHR 0x9F, CHR 0x8F, CHR 0xA6]"

definition pointing_up_icon :: string where
  "pointing_up_icon = [CHR 0xF0, CHR 0x9F, CHR 0x91, CHR 0x86]"

definition page_icon :: string where
  "page_icon = [CHR 0xF0, CHR 0x9F, CHR 0x93, CHR 0x84]"

definition globe_icon :: string where
  "globe_icon = [CHR 0xF0, CHR 0x9F, CHR 0x8C, CHR 0x90]"

text \<open>
  \<open>data = None\<close>, replaced by the parsed value when a file was uploaded and
  \<open>json.load\<close> did not raise; the exception is shown with \<open>st.error\<close>.
\<close>

fun load :: "upload \<Rightarrow> ui list \<times> json" where
  "load NoFile = ([], JNull)"
| "load (InvalidJson msg) = ([StError (''Invalid JSON: '' @ msg)], JNull)"
| "load (ParsedJson v) = ([], v)"

text \<open>The script after the guard \<open>if not data\<close>: banner, header, tiles, downloads.\<close>

definition render_report :: "runtime \<Rightarrow> json \<Rightarrow> run" where
  "render_report rt data =
     attempt (detect_schema_version data) (\<lambda>schema_version.
     attempt (resolve_company_name rt data ''Unknown'') (\<lambda>company.
     emit (StSuccess (''Loaded: '' @ company @ '' (Schema v'' @ schema_version @ '')'')) (
     attempt (py_get data ''report_info'' (JObj [])) (\<lambda>r.
     attempt (py_get r ''period_start'' (JStr [])) (\<lambda>period_start.
     attempt (py_get r ''period_end'' (JStr [])) (\<lambda>period_end.
     attempt (py_get r ''total_months'' (JInt 0)) (\<lambda>total_months.
     emit (StMarkdown
        (''**'' @ company @ ''**  '' @ [CHR 0x0A] @
         py_str rt period_start @ '' '' @ arrow @ '' '' @ py_str rt period_end @ ''  '' @ [CHR 0x0A] @
         py_str rt total_months @ '' Months'')) (
     emit (StColumns 4) (
     attempt (py_get data ''integrity_score'' (JObj [])) (\<lambda>integrity.
     attempt (py_get integrity ''score'' (JInt 0)) (\<lambda>score.
     emit (StMetric ''Integrity'' (JStr (py_str rt score @ ''%''))) (
     attempt (py_get data ''kite_flying'' (JObj [])) (\<lambda>kite.
     attempt (py_get kite ''risk_score'' (JInt 0)) (\<lambda>risk_score.
     emit (StMetric ''Kite Risk'' risk_score) (
     attempt (py_get data ''volatility'' (JObj [])) (\<lambda>volatility.
     attempt (py_get volatility ''overall_index'' (JInt 0)) (\<lambda>overall_index.
     attempt (format_0f overall_index) (\<lambda>overall_index_text.
     emit (StMetric ''Volatility'' (JStr (overall_index_text @ ''%''))) (
     attempt (py_get data ''accounts'' (JArr [])) (\<lambda>accounts.
     attempt (py_len accounts) (\<lambda>n.
     emit (StMetric ''Accounts'' (JInt (int n))) (
     emit (StMarkdown ''---'') (
     emit (StColumns 2) (
     emit (StDownloadButton (page_icon @ '' Download JSON'') (json_dumps rt data)
             (replace_spaces company @ ''_analysis.json'') ''application/json'') (
     attempt (generate_interactive_html rt data) (\<lambda>html.
     emit (StDownloadButton (globe_icon @ '' Download HTML'') html
             (replace_spaces company @ ''_analysis.html'') ''text/html'')
     ([], Finished)
     ))))))))))))))))))))))))))"

definition main :: "runtime \<Rightarrow> upload \<Rightarrow> run" where
  "main rt uploaded_file =
     emit (SetPageConfig ''Bank Statement Analysis v5.0'' bank_icon ''wide'') (
     emit (StTitle (bank_icon @ '' Bank Statement Analysis v5.0'')) (
     emit (StCaption ''Backwards compatible with v4.0 schema'') (
     emit (StFileUploader ''Upload JSON Analysis Output'' [''json'']) (
     let loaded = load uploaded_file;
         data = snd loaded;
         rest = (if truthy data then render_report rt data
                 else emit (StInfo (pointing_up_icon @ '' Upload a JSON file to begin''))
                        ([], Stopped))
     in (fst loaded @ fst rest, snd rest)))))"

text \<open>
  A runtime for running the program on documents written in ASCII whose displayed
  values are strings, integers, booleans or \<open>null\<close>. On ASCII text \<open>str.strip()\<close>
  removes the characters \<open>0x09\<close> to \<open>0x0D\<close>, \<open>0x1C\<close> to \<open>0x1F\<close> and the space
  from both ends, and \<open>str.lower()\<close> changes only the letters \<open>A\<close> to \<open>Z\<close>;
  \<open>str\<close> never asks for a \<open>repr\<close> there.
\<close>

definition ascii_space :: "char \<Rightarrow> bool" where
  "ascii_space c = (c \<in> set
     [CHR 0x09, CHR 0x0A, CHR 0x0B, CHR 0x0C, CHR 0x0D,
      CHR 0x1C, CHR 0x1D, CHR 0x1E, CHR 0x1F, CHR 0x20])"

definition ascii_strip :: "string \<Rightarrow> string" where
  "ascii_strip s = rev (dropWhile ascii_space (rev (dropWhile ascii_space s)))"

definition ascii_lower_char :: "char \<Rightarrow> char" where
  "ascii_lower_char c =
     (case map_of (zip ''ABCDEFGHIJKLMNOPQRSTUVWXYZ'' ''abcdefghijklmnopqrstuvwxyz'') c of
        Some l \<Rightarrow> l
      | None \<Rightarrow> c)"

definition ascii_lower :: "string \<Rightarrow> string" where
  "ascii_lower s = map ascii_lower_char s"

definition plain_runtime :: runtime where
  "plain_runtime =
     \<lparr>now_isoformat = ''2026-11-03T10:15:00.000000'',
      py_repr = (\<lambda>v. []),
      json_dumps = (\<lambda>v. []),
      str_strip = ascii_strip,
      str_lower = ascii_lower\<rparr>"

section \<open>The document shape and the algorithms as the specification words them\<close>

text \<open>
  The data model of the specification: a document is a mapping; \<open>report_info\<close>, when
  present, is a mapping whose \<open>schema_version\<close>, when present, is a string;
  \<open>accounts\<close>, when present, is a sequence of account mappings whose
  \<open>monthly_summary\<close>, when present, is a sequence of month mappings. No field has
  to be present.
\<close>

definition absent_or :: "(json \<Rightarrow> bool) \<Rightarrow> (string \<times> json) list \<Rightarrow> string \<Rightarrow> bool" where
  "absent_or P kvs k = (case map_of kvs k of None \<Rightarrow> True | Some v \<Rightarrow> P v)"

fun is_str :: "json \<Rightarrow> bool" where
  "is_str (JStr s) = True"
| "is_str _ = False"

fun is_mapping :: "json \<Rightarrow> bool" where
  "is_mapping (JObj kvs) = True"
| "is_mapping _ = False"

fun is_month_seq :: "json \<Rightarrow> bool" where
  "is_month_seq (JArr ms) = list_all is_mapping ms"
| "is_month_seq _ = False"

fun is_account :: "json \<Rightarrow> bool" where
  "is_account (JObj a) = absent_or is_month_seq a ''monthly_summary''"
| "is_account _ = False"

fun is_account_seq :: "json \<Rightarrow> bool" where
  "is_account_seq (JArr accs) = list_all is_account accs"
| "is_account_seq _ = False"

fun is_report_info :: "json \<Rightarrow> bool" where
  "is_report_info (JObj r) = absent_or is_str r ''schema_version''"
| "is_report_info _ = False"

fun conforms :: "json \<Rightarrow> bool" where
  "conforms (JObj kvs) =
     (absent_or is_report_info kvs ''report_info'' \<and> absent_or is_account_seq kvs ''accounts'')"
| "conforms _ = False"

text \<open>A field of a mapping; nothing when the value is not a mapping or lacks the key.\<close>

fun field :: "json \<Rightarrow> string \<Rightarrow> json option" where
  "field (JObj kvs) k = map_of kvs k"
| "field _ k = None"

fun non_empty :: "json option \<Rightarrow> bool" where
  "non_empty None = False"
| "non_empty (Some v) = truthy v"

fun first_element :: "json option \<Rightarrow> json option" where
  "first_element (Some (JArr (x # xs))) = Some x"
| "first_element _ = None"

text \<open>The four rules of the schema detector, in the words of the specification.\<close>

definition rule1 :: "json \<Rightarrow> bool" where
  "rule1 d =
     (case Option.bind (field d ''report_info'') (\<lambda>r. field r ''schema_version'') of
        Some (JStr s) \<Rightarrow> starts_with s ''5.''
      | _ \<Rightarrow> False)"

definition rule2 :: "json \<Rightarrow> bool" where
  "rule2 d =
     (non_empty (field d ''recurring_payments'') \<or> non_empty (field d ''non_bank_financing''))"

definition rule3 :: "json \<Rightarrow> bool" where
  "rule3 d =
     (case first_element (field d ''accounts'') of
        None \<Rightarrow> False
      | Some a \<Rightarrow>
          (case first_element (field a ''monthly_summary'') of
             None \<Rightarrow> False
           | Some m \<Rightarrow> field m ''highest_intraday'' \<noteq> None))"

definition spec_detect :: "json \<Rightarrow> string" where
  "spec_detect d =
     (if rule1 d then ''5.0'' else if rule2 d then ''5.0'' else if rule3 d then ''5.0''
      else ''4.0'')"

text \<open>
  The resolver in the words of the specification: the six probes in priority order,
  each kept when it is a string whose trimmed value is non-empty and whose lowercase
  form is not a placeholder; the first one kept is the answer, trimmed.
\<close>

definition name_keys :: "string list" where
  "name_keys = [''company_name'', ''company'', ''entity_name'']"

definition probes :: "json \<Rightarrow> json option list" where
  "probes d =
     map (\<lambda>k. Option.bind (field d ''report_info'') (\<lambda>r. field r k)) name_keys @
     map (field d) name_keys"

fun trimmed_name :: "runtime \<Rightarrow> json option \<Rightarrow> string option" where
  "trimmed_name rt (Some (JStr c)) =
     (if str_strip rt c \<noteq> [] \<and> str_lower rt (str_strip rt c) \<notin> set blocklist
      then Some (str_strip rt c) else None)"
| "trimmed_name rt _ = None"

definition spec_resolve :: "runtime \<Rightarrow> json \<Rightarrow> string \<Rightarrow> string" where
  "spec_resolve rt d dflt =
     (if is_mapping d
      then (case List.map_filter (trimmed_name rt) (probes d) of [] \<Rightarrow> dflt | s # _ \<Rightarrow> s)
      else dflt)"

text \<open>
  The values of \<open>report_info\<close> the resolver copes with: absent, a mapping, or falsy
  (\<open>null\<close>, \<open>false\<close>, zero, an empty string or list), which \<open>or {}\<close> replaces.
\<close>

fun report_info_tolerated :: "json \<Rightarrow> bool" where
  "report_info_tolerated (JObj kvs) =
     (case map_of kvs ''report_info'' of
        None \<Rightarrow> True
      | Some v \<Rightarrow> is_mapping v \<or> \<not> truthy v)"
| "report_info_tolerated _ = True"

text \<open>What is on screen: every call but the two download buttons.\<close>

fun on_screen :: "ui \<Rightarrow> bool" where
  "on_screen (StDownloadButton label content file_name mime) = False"
| "on_screen _ = True"

definition same_view :: "run \<Rightarrow> run \<Rightarrow> bool" where
  "same_view a b = (filter on_screen (fst a) = filter on_screen (fst b) \<and> snd a = snd b)"

text \<open>
  A field of the document, and a field of a mapping inside it, with the default
  the program gives when the key is absent.
\<close>

definition nested :: "json \<Rightarrow> string \<Rightarrow> string \<Rightarrow> json \<Rightarrow> json" where
  "nested d k1 k2 dflt =
     (case Option.bind (field d k1) (\<lambda>v. field v k2) of None \<Rightarrow> dflt | Some x \<Rightarrow> x)"

definition top :: "json \<Rightarrow> string \<Rightarrow> json \<Rightarrow> json" where
  "top d k dflt = (case field d k of None \<Rightarrow> dflt | Some x \<Rightarrow> x)"



text \<open>
  Pieces of the generated document, written out: its head through the title line for
  a company name; a card with its heading, value and level; the list of observations.
\<close>

definition document_head :: "string \<Rightarrow> string" where
  \<open>document_head c =
     [CHR 0x0A] @ ''<!DOCTYPE html>'' @ [CHR 0x0A] @ ''<html>'' @ [CHR 0x0A] @
     ''<head>'' @ [CHR 0x0A] @ ''<meta charset="utf-8">'' @ [CHR 0x0A] @
     ''<title>Bank Statement Analysis - '' @ c @ ''</title>'' @ [CHR 0x0A]\<close>

definition card_text :: "string \<Rightarrow> string \<Rightarrow> string \<Rightarrow> string" where
  "card_text heading shown level =
     ''<h2>'' @ heading @ ''</h2>'' @ [CHR 0x0A] @
     ''<p>'' @ shown @ '' '' @ [CHR 0xE2, CHR 0x80, CHR 0x94] @ '' '' @ level @ ''</p>''"

definition item_list :: "string \<Rightarrow> string" where
  "item_list items = ''<ul>'' @ [CHR 0x0A] @ items @ [CHR 0x0A] @ ''</ul>''"

text \<open>The file name and media type of a download button.\<close>

fun download_file :: "ui \<Rightarrow> (string \<times> string) option" where
  "download_file (StDownloadButton label content file_name mime) = Some (file_name, mime)"
| "download_file _ = None"





definition placeholder_document :: json where
  "placeholder_document = JObj [(''report_info'', JObj [(''company_name'', JStr ''N/A'')])]"

section \<open>Evaluation rules\<close>

lemma py_bind_Inr [simp]: "py_bind (Inr v) f = f v"
  by (simp add: py_bind_def)

lemma py_bind_Inl [simp]: "py_bind (Inl e) f = Inl e"
  by (simp add: py_bind_def)

lemma attempt_Inr [simp]: "attempt (Inr v) k = k v"
  by (simp add: attempt_def)

lemma attempt_Inl [simp]: "attempt (Inl e) k = ([], Raised e)"
  by (simp add: attempt_def)

lemma fst_emit [simp]: "fst (emit e k) = e # fst k"
  by (simp add: emit_def)

lemma snd_emit [simp]: "snd (emit e k) = snd k"
  by (simp add: emit_def)

lemmas builtin_defs =
  plain_runtime_def ascii_strip_def ascii_lower_def ascii_lower_char_def ascii_space_def
  blocklist_def starts_with_def

section \<open>Schema detection: the four rules\<close>

lemma detect_values: "detect_schema_version d = Inr v \<Longrightarrow> v = ''5.0'' \<or> v = ''4.0''"
  unfolding detect_schema_version_def py_bind_def
  by (auto split: sum.splits if_splits)

lemma is_report_info_cases:
  "is_report_info v \<Longrightarrow>
     \<exists>r. v = JObj r \<and> (map_of r ''schema_version'' = None \<or>
                        (\<exists>s. map_of r ''schema_version'' = Some (JStr s)))"
  by (cases v) (auto simp: absent_or_def split: option.splits elim: is_str.elims)

lemma is_month_seq_cases:
  "is_month_seq v \<Longrightarrow> v = JArr [] \<or> (\<exists>m ms. v = JArr (JObj m # ms))"
  apply (cases v; simp)
  subgoal for xs by (cases xs; simp) (auto elim: is_mapping.elims)
  done

lemma is_account_seq_cases:
  "is_account_seq v \<Longrightarrow> v = JArr [] \<or>
     (\<exists>a as. v = JArr (JObj a # as) \<and>
        (map_of a ''monthly_summary'' = None \<or>
         (\<exists>w. map_of a ''monthly_summary'' = Some w \<and> is_month_seq w)))"
  apply (cases v; simp)
  subgoal for xs
    by (cases xs; simp) (auto simp: absent_or_def split: option.splits elim!: is_account.elims)
  done

text \<open>The detector on a mapping, with the top-level lookups resolved.\<close>

lemma detect_obj:
  "detect_schema_version (JObj kvs) =
     py_bind (py_get (case map_of kvs ''report_info'' of Some x \<Rightarrow> x | None \<Rightarrow> JObj [])
                ''schema_version'' (JStr [])) (\<lambda>schema_version.
     py_bind (py_startswith schema_version ''5.'') (\<lambda>is5.
     if is5 then Inr ''5.0'' else
     if non_empty (map_of kvs ''recurring_payments'') \<or>
        non_empty (map_of kvs ''non_bank_financing'') then Inr ''5.0'' else
     (case map_of kvs ''accounts'' of None \<Rightarrow> Inr ''4.0'' | Some accounts \<Rightarrow>
     if truthy accounts then
       py_bind (py_index0 accounts) (\<lambda>account0.
       py_bind (py_get account0 ''monthly_summary'' (JArr [])) (\<lambda>monthly.
       if truthy monthly then
         py_bind (py_index0 monthly) (\<lambda>month0.
         py_bind (py_contains month0 ''highest_intraday'') (\<lambda>has_intraday.
         if has_intraday then Inr ''5.0'' else Inr ''4.0''))
       else Inr ''4.0''))
     else Inr ''4.0'')))"
  unfolding detect_schema_version_def
  by (cases "map_of kvs ''recurring_payments''"; cases "map_of kvs ''non_bank_financing''";
      cases "map_of kvs ''accounts''"; simp cong: if_cong)

lemma rule1_conforms:
  assumes "map_of kvs ''report_info'' = None \<or>
           (\<exists>v. map_of kvs ''report_info'' = Some v \<and> is_report_info v)"
  shows "\<exists>s. py_get (case map_of kvs ''report_info'' of Some x \<Rightarrow> x | None \<Rightarrow> JObj [])
                 ''schema_version'' (JStr []) = Inr (JStr s)
     \<and> rule1 (JObj kvs) = starts_with s ''5.''"
  using assms
  by (auto simp: rule1_def starts_with_def dest!: is_report_info_cases)

lemma rule3_conforms:
  assumes "is_account_seq v" "map_of kvs ''accounts'' = Some v"
  shows "(if truthy v then
       py_bind (py_index0 v) (\<lambda>account0.
       py_bind (py_get account0 ''monthly_summary'' (JArr [])) (\<lambda>monthly.
       if truthy monthly then
         py_bind (py_index0 monthly) (\<lambda>month0.
         py_bind (py_contains month0 ''highest_intraday'') (\<lambda>has_intraday.
         if has_intraday then Inr ''5.0'' else Inr ''4.0''))
       else Inr ''4.0''))
     else Inr ''4.0'') = Inr (if rule3 (JObj kvs) then ''5.0'' else ''4.0'')"
proof -
  from assms(1) consider "v = JArr []"
    | a as where "v = JArr (JObj a # as)" "map_of a ''monthly_summary'' = None"
    | a as w where "v = JArr (JObj a # as)" "map_of a ''monthly_summary'' = Some w"
        "is_month_seq w"
    by (auto dest!: is_account_seq_cases)
  then show ?thesis
  proof cases
    case 1
    then show ?thesis using assms(2) by (simp add: rule3_def)
  next
    case 2
    then show ?thesis using assms(2) by (simp add: rule3_def)
  next
    case 3
    from 3(3) consider "w = JArr []" | m ms where "w = JArr (JObj m # ms)"
      by (auto dest!: is_month_seq_cases)
    then show ?thesis
      using 3(1,2) assms(2) by cases (simp_all add: rule3_def)
  qed
qed

lemma conforms_detect:
  assumes "conforms d"
  shows "detect_schema_version d = Inr (spec_detect d)"
proof -
  from assms obtain kvs where d: "d = JObj kvs" by (cases d) auto
  from assms have ri: "map_of kvs ''report_info'' = None \<or>
      (\<exists>v. map_of kvs ''report_info'' = Some v \<and> is_report_info v)"
    and ac: "map_of kvs ''accounts'' = None \<or>
      (\<exists>v. map_of kvs ''accounts'' = Some v \<and> is_account_seq v)"
    by (auto simp: d absent_or_def split: option.splits)
  from rule1_conforms[OF ri] obtain s where
    s: "py_get (case map_of kvs ''report_info'' of Some x \<Rightarrow> x | None \<Rightarrow> JObj [])
          ''schema_version'' (JStr []) = Inr (JStr s)"
     and r1: "rule1 (JObj kvs) = starts_with s ''5.''" by blast
  have r2: "rule2 (JObj kvs) =
      (non_empty (map_of kvs ''recurring_payments'') \<or>
       non_empty (map_of kvs ''non_bank_financing''))"
    by (simp add: rule2_def)
  show ?thesis
  proof (cases "map_of kvs ''accounts''")
    case None
    then have "\<not> rule3 (JObj kvs)" by (simp add: rule3_def)
    then show ?thesis unfolding d detect_obj s spec_detect_def r1 r2
      by (simp add: None)
  next
    case (Some v)
    with ac have "is_account_seq v" by simp
    from rule3_conforms[OF this Some] show ?thesis
      unfolding d detect_obj s spec_detect_def r1 r2
      by (simp add: Some)
  qed
qed

text \<open>
  On every document that conforms to the data model the detector follows the four
  ordered rules; whatever it returns, on any document, is \<open>5.0\<close> or \<open>4.0\<close>.
\<close>

lemma detect_on_conforming:
  "(conforms d \<longrightarrow> detect_schema_version d = Inr (spec_detect d)) \<and>
   (\<forall>v. detect_schema_version d = Inr v \<longrightarrow> v = ''5.0'' \<or> v = ''4.0'')"
  using conforms_detect [of d] detect_values [of d] by blast

text \<open>
  Claim C1 fails on the code. A numeric \<open>schema_version\<close> is not a string starting
  with \<open>5.\<close>, so rule 1 does not match and the rules give \<open>4.0\<close> for these documents;
  the detector calls \<open>startswith\<close> on the number and raises. The next document is
  decided by rule 2, which the detector never reaches.
\<close>

theorem detect_schema_version_raises:
  "detect_schema_version (JObj [(''report_info'', JObj [(''schema_version'', JInt 5)])])
     = Inl AttributeError \<and>
   spec_detect (JObj [(''report_info'', JObj [(''schema_version'', JInt 5)])]) = ''4.0'' \<and>
   detect_schema_version
     (JObj [(''report_info'', JObj [(''schema_version'', JFloat (Finite 5))]),
            (''recurring_payments'', JArr [JInt 1])])
     = Inl AttributeError \<and>
   spec_detect
     (JObj [(''report_info'', JObj [(''schema_version'', JFloat (Finite 5))]),
            (''recurring_payments'', JArr [JInt 1])]) = ''5.0''"
  by (simp add: detect_schema_version_def spec_detect_def rule1_def rule2_def rule3_def)

text \<open>
  Claim C5 fails on the code. In this document every key but \<open>report_info\<close> is
  absent and \<open>report_info\<close> is \<open>null\<close>: the detector calls \<open>get\<close> on \<open>None\<close> and
  raises, where the resolver, with \<open>or {}\<close>, takes the same \<open>null\<close> for an empty
  mapping. On the empty document the detector returns \<open>4.0\<close>.
\<close>

theorem detect_null_report_info_raises:
  "detect_schema_version (JObj [(''report_info'', JNull)]) = Inl AttributeError \<and>
   resolve_company_name rt (JObj [(''report_info'', JNull)]) dflt = Inr dflt \<and>
   detect_schema_version (JObj []) = Inr ''4.0''"
  by (simp add: detect_schema_version_def starts_with_def)

section \<open>Company name resolution\<close>

lemma qualifies_trimmed:
  "qualifies rt (case x of None \<Rightarrow> JNull | Some v \<Rightarrow> v) = trimmed_name rt x"
proof (cases x)
  case None
  then show ?thesis by simp
next
  case (Some v)
  then show ?thesis by (cases v) (simp_all add: Let_def)
qed

lemma first_qualifying_map_filter:
  "first_qualifying rt (map (\<lambda>x. case x of None \<Rightarrow> JNull | Some v \<Rightarrow> v) xs) dflt =
     (case List.map_filter (trimmed_name rt) xs of [] \<Rightarrow> dflt | s # _ \<Rightarrow> s)"
  by (induction xs) (simp_all add: List.map_filter_simps qualifies_trimmed split: option.splits)

lemma resolve_obj:
  assumes "report_info_tolerated (JObj kvs)"
  shows "resolve_company_name rt (JObj kvs) dflt =
     Inr (first_qualifying rt
            (map (\<lambda>x. case x of None \<Rightarrow> JNull | Some v \<Rightarrow> v) (probes (JObj kvs))) dflt)"
proof (cases "map_of kvs ''report_info''")
  case None
  then show ?thesis by (simp add: probes_def name_keys_def)
next
  case (Some v)
  with assms consider r where "v = JObj r" | "\<not> is_mapping v" "\<not> truthy v"
    by (cases v) auto
  then show ?thesis
  proof cases
    case 1
    then show ?thesis using Some by (simp add: probes_def name_keys_def)
  next
    case 2
    then show ?thesis using Some by (cases v) (simp_all add: probes_def name_keys_def)
  qed
qed

text \<open>
  For every input that is not a mapping, and for every mapping whose \<open>report_info\<close>
  is absent, a mapping or falsy, the resolver returns what the specification
  describes, whatever \<open>strip\<close> and \<open>lower\<close> the runtime has.
\<close>

lemma resolve_spec:
  "report_info_tolerated d \<Longrightarrow> resolve_company_name rt d dflt = Inr (spec_resolve rt d dflt)"
  by (cases d)
    (simp_all add: spec_resolve_def resolve_obj first_qualifying_map_filter
       del: resolve_company_name.simps(1))

text \<open>
  Claim C2 fails on the code, on a mapping: with \<open>report_info\<close> a non-empty string
  the nested probes find nothing and the top-level \<open>company\<close> qualifies, so the claim
  gives \<open>Acme\<close>; \<open>or {}\<close> keeps the string, the resolver calls \<open>get\<close> on it and
  raises.
\<close>

theorem resolve_company_name_raises:
  "resolve_company_name plain_runtime
     (JObj [(''report_info'', JStr ''x''), (''company'', JStr ''Acme'')]) ''Unknown''
     = Inl AttributeError \<and>
   spec_resolve plain_runtime
     (JObj [(''report_info'', JStr ''x''), (''company'', JStr ''Acme'')]) ''Unknown''
     = ''Acme''"
  by (simp add: spec_resolve_def probes_def name_keys_def List.map_filter_simps builtin_defs)

section \<open>Type mismatches\<close>

text \<open>
  Claim C3 fails on the code. With \<open>report_info\<close> a list instead of a mapping both
  functions raise \<open>AttributeError\<close>; so does the detector on a numeric
  \<open>schema_version\<close> and on a document that is a list, which the resolver guards
  against with \<open>isinstance\<close>.
\<close>

theorem type_mismatch_raises:
  "resolve_company_name rt (JObj [(''report_info'', JArr [JInt 1])]) ''Unknown''
     = Inl AttributeError \<and>
   detect_schema_version (JObj [(''report_info'', JArr [JInt 1])]) = Inl AttributeError \<and>
   detect_schema_version (JObj [(''report_info'', JObj [(''schema_version'', JInt 5)])])
     = Inl AttributeError \<and>
   detect_schema_version (JArr [JInt 1]) = Inl AttributeError \<and>
   resolve_company_name rt (JArr [JInt 1]) ''Unknown'' = Inr ''Unknown''"
  by (simp add: detect_schema_version_def)

section \<open>The upload guard\<close>

text \<open>
  Claim C9. An upload that parses to a falsy value is treated exactly like no upload:
  the script shows the upload prompt and stops; nothing is detected, resolved or
  rendered, and no error message is shown.
\<close>

theorem falsy_upload_is_no_upload:
  "\<not> truthy v \<Longrightarrow>
     main rt (ParsedJson v) = main rt NoFile \<and>
     main rt NoFile =
       ([SetPageConfig ''Bank Statement Analysis v5.0'' bank_icon ''wide'',
         StTitle (bank_icon @ '' Bank Statement Analysis v5.0''),
         StCaption ''Backwards compatible with v4.0 schema'',
         StFileUploader ''Upload JSON Analysis Output'' [''json''],
         StInfo (pointing_up_icon @ '' Upload a JSON file to begin'')],
        Stopped)"
  by (simp add: main_def Let_def emit_def)

theorem falsy_upload_is_no_upload_witness:
  "list_all (\<lambda>v. \<not> truthy v \<and> main plain_runtime (ParsedJson v) = main plain_runtime NoFile)
     [JObj [], JArr [], JInt 0, JBool False, JNull, JStr [], JFloat (Finite 0)]"
  using falsy_upload_is_no_upload [of "JObj []" plain_runtime]
    falsy_upload_is_no_upload [of "JArr []" plain_runtime]
    falsy_upload_is_no_upload [of "JInt 0" plain_runtime]
    falsy_upload_is_no_upload [of "JBool False" plain_runtime]
    falsy_upload_is_no_upload [of "JNull" plain_runtime]
    falsy_upload_is_no_upload [of "JStr []" plain_runtime]
    falsy_upload_is_no_upload [of "JFloat (Finite 0)" plain_runtime]
  by simp

section \<open>The clock\<close>

lemma qualifies_now [simp]: "qualifies (rt\<lparr>now_isoformat := t\<rparr>) v = qualifies rt v"
  by (cases v) simp_all

lemma first_qualifying_now [simp]:
  "first_qualifying (rt\<lparr>now_isoformat := t\<rparr>) cs dflt = first_qualifying rt cs dflt"
  by (induction cs) (simp_all split: option.splits)

lemma resolve_now [simp]:
  "resolve_company_name (rt\<lparr>now_isoformat := t\<rparr>) d dflt = resolve_company_name rt d dflt"
  by (cases d) (simp_all del: first_qualifying.simps)

lemma py_str_now [simp]: "py_str (rt\<lparr>now_isoformat := t\<rparr>) v = py_str rt v"
  by (cases v) simp_all

lemma template_slots_now [simp]:
  "template_slots (rt\<lparr>now_isoformat := t\<rparr>) d = template_slots rt d"
  by (simp add: template_slots_def)

lemma html_template_split:
  "html_template s t =
     ([CHR 0x0A] @ unlines (report_lines s) @
        ''<footer style=\"margin-top:3rem;color:#94a3b8;font-size:0.8rem\">'' @ [CHR 0x0A] @ ''Generated '')
     @ t @ ([CHR 0x0A] @ unlines [''</footer>'', [], ''</body>'', ''</html>''])"
  by (simp add: html_template_def unlines_def footer_lines_def)

lemma generate_now:
  "(\<exists>e. \<forall>t. generate_interactive_html (rt\<lparr>now_isoformat := t\<rparr>) d = Inl e) \<or>
   (\<exists>pre post. \<forall>t. generate_interactive_html (rt\<lparr>now_isoformat := t\<rparr>) d = Inr (pre @ t @ post))"
proof (cases "template_slots rt d")
  case (Inl e)
  then show ?thesis by (simp add: generate_interactive_html_def)
next
  case (Inr s)
  then have "\<forall>t. generate_interactive_html (rt\<lparr>now_isoformat := t\<rparr>) d = Inr (
     ([CHR 0x0A] @ unlines (report_lines s) @
        ''<footer style=\"margin-top:3rem;color:#94a3b8;font-size:0.8rem\">'' @ [CHR 0x0A] @ ''Generated '')
     @ t @ ([CHR 0x0A] @ unlines [''</footer>'', [], ''</body>'', ''</html>'']))"
    by (simp add: generate_interactive_html_def html_template_split del: append_assoc)
  then show ?thesis by blast
qed

lemma same_view_emit: "same_view a b \<Longrightarrow> same_view (emit e a) (emit e b)"
  by (simp add: same_view_def)

lemma same_view_attempt: "(\<And>v. same_view (k1 v) (k2 v)) \<Longrightarrow> same_view (attempt x k1) (attempt x k2)"
  by (cases x) (simp_all add: same_view_def)

lemma same_view_download:
  "same_view (attempt (generate_interactive_html (rt\<lparr>now_isoformat := t1\<rparr>) d)
                (\<lambda>html. emit (StDownloadButton l html f1 m) ([], Finished)))
             (attempt (generate_interactive_html (rt\<lparr>now_isoformat := t2\<rparr>) d)
                (\<lambda>html. emit (StDownloadButton l html f1 m) ([], Finished)))"
  using generate_now [of rt d] by (auto simp: same_view_def)

lemma render_report_now:
  "same_view (render_report (rt\<lparr>now_isoformat := t1\<rparr>) d) (render_report (rt\<lparr>now_isoformat := t2\<rparr>) d)"
  unfolding render_report_def
  by (intro same_view_attempt same_view_emit same_view_download | simp)+

lemma main_now:
  "same_view (main (rt\<lparr>now_isoformat := t1\<rparr>) up) (main (rt\<lparr>now_isoformat := t2\<rparr>) up)"
  using render_report_now [where d = "snd (load up)" and rt = rt and ?t1.0 = t1 and ?t2.0 = t2]
  by (simp add: main_def Let_def same_view_def)

text \<open>
  Claim C7. Two runs of the generator on the same document that read the clock as
  \<open>t1\<close> and \<open>t2\<close> either raise the same exception or return the same text around
  the clock reading; what the script puts on screen does not depend on the clock.
\<close>

theorem deterministic_up_to_timestamp:
  "((\<exists>e. \<forall>t. generate_interactive_html (rt\<lparr>now_isoformat := t\<rparr>) d = Inl e) \<or>
    (\<exists>pre post. \<forall>t. generate_interactive_html (rt\<lparr>now_isoformat := t\<rparr>) d = Inr (pre @ t @ post))) \<and>
   same_view (main (rt\<lparr>now_isoformat := t1\<rparr>) up) (main (rt\<lparr>now_isoformat := t2\<rparr>) up)"
  using generate_now main_now by blast

section \<open>What the generator and the script show\<close>

lemma py_bind_Inr_iff: "py_bind x f = Inr y \<longleftrightarrow> (\<exists>v. x = Inr v \<and> f v = Inr y)"
  by (cases x) simp_all

lemma py_get_Inr_iff:
  "py_get v k dflt = Inr x \<longleftrightarrow>
     (\<exists>kvs. v = JObj kvs \<and> x = (case map_of kvs k of Some y \<Rightarrow> y | None \<Rightarrow> dflt))"
  by (cases v) auto

lemma py_bindE:
  assumes "py_bind x f = Inr y"
  obtains v where "x = Inr v" "f v = Inr y"
  using assms by (cases x) simp_all

lemma py_get_top: "py_get (JObj kvs) k dflt = Inr (top (JObj kvs) k dflt)"
  by (simp add: top_def split: option.splits)

lemma py_get_top_nested:
  "py_get (top (JObj kvs) k1 (JObj [])) k2 dflt = Inr x \<longleftrightarrow>
     is_mapping (top (JObj kvs) k1 (JObj [])) \<and> x = nested (JObj kvs) k1 k2 dflt"
proof (cases "map_of kvs k1")
  case None
  then show ?thesis by (auto simp: top_def nested_def)
next
  case (Some a)
  then show ?thesis by (cases a) (auto simp: top_def nested_def split: option.splits)
qed

lemma template_slots_Inr:
  assumes "template_slots rt d = Inr s"
  shows "resolve_company_name rt d ''Company'' = Inr (company_slot s) \<and>
     period_start_slot s = py_str rt (nested d ''report_info'' ''period_start'' (JStr [])) \<and>
     period_end_slot s = py_str rt (nested d ''report_info'' ''period_end'' (JStr [])) \<and>
     total_months_slot s = py_str rt (nested d ''report_info'' ''total_months'' (JInt 0)) \<and>
     int_score_slot s = py_str rt (nested d ''integrity_score'' ''score'' (JInt 0)) \<and>
     int_rating_slot s = py_str rt (nested d ''integrity_score'' ''rating'' (JStr ''N/A'')) \<and>
     format_0f (nested d ''volatility'' ''overall_index'' (JInt 0)) = Inr (vol_index_slot s) \<and>
     vol_level_slot s = py_str rt (nested d ''volatility'' ''overall_level'' (JStr ''LOW'')) \<and>
     kite_score_slot s = py_str rt (nested d ''kite_flying'' ''risk_score'' (JInt 0)) \<and>
     kite_level_slot s = py_str rt (nested d ''kite_flying'' ''risk_level'' (JStr ''LOW'')) \<and>
     (\<exists>os. py_iter (nested d ''observations'' ''positive'' (JArr [])) = Inr os \<and>
        observation_items_slot s = concat (map (\<lambda>item. ''<li>'' @ py_str rt item @ ''</li>'') os))"
proof -
  from assms obtain kvs where d: "d = JObj kvs"
    by (cases d) (simp_all add: template_slots_def detect_schema_version_def)
  show ?thesis
    using assms unfolding d template_slots_def
    apply (simp only: py_get_top py_bind_Inr)
    apply (erule py_bindE)+
    apply (clarsimp simp: py_get_top_nested simp del: py_get.simps resolve_company_name.simps)
    done
qed

lemma in_attempt:
  "x \<in> set (fst (attempt r k)) \<longleftrightarrow> (\<exists>v. r = Inr v \<and> x \<in> set (fst (k v)))"
  by (cases r) simp_all

lemma render_report_mapping:
  "x \<in> set (fst (render_report rt d)) \<Longrightarrow> \<exists>kvs. d = JObj kvs"
  by (cases d) (simp_all add: render_report_def detect_schema_version_def)


lemma render_report_success:
  assumes "StSuccess msg \<in> set (fst (render_report rt d))"
  shows "\<exists>sv c. resolve_company_name rt d ''Unknown'' = Inr c \<and>
           msg = ''Loaded: '' @ c @ '' (Schema v'' @ sv @ '')''"
proof -
  from assms obtain kvs where d: "d = JObj kvs"
    by (auto dest: render_report_mapping)
  show ?thesis
    using assms unfolding d render_report_def
    apply (simp only: py_get_top in_attempt fst_emit set_simps insert_iff)
    apply (clarsimp simp del: py_get.simps resolve_company_name.simps)
    done
qed

lemma render_report_download:
  assumes "StDownloadButton l c f m \<in> set (fst (render_report rt d))"
  shows "\<exists>company. resolve_company_name rt d ''Unknown'' = Inr company \<and>
           (f = replace_spaces company @ ''_analysis.json'' \<or>
            f = replace_spaces company @ ''_analysis.html'')"
proof -
  from assms obtain kvs where d: "d = JObj kvs"
    by (auto dest: render_report_mapping)
  show ?thesis
    using assms unfolding d render_report_def
    apply (simp only: py_get_top in_attempt fst_emit set_simps insert_iff)
    apply (clarsimp simp del: py_get.simps resolve_company_name.simps)
    done
qed

lemma main_events:
  "x \<in> set (fst (main rt (ParsedJson d))) \<Longrightarrow>
     x \<in> set (fst (render_report rt d)) \<or>
     x \<in> {SetPageConfig ''Bank Statement Analysis v5.0'' bank_icon ''wide'',
           StTitle (bank_icon @ '' Bank Statement Analysis v5.0''),
           StCaption ''Backwards compatible with v4.0 schema'',
           StFileUploader ''Upload JSON Analysis Output'' [''json''],
           StInfo (pointing_up_icon @ '' Upload a JSON file to begin'')}"
  by (auto simp: main_def Let_def split: if_splits)

lemma resolve_Inr_tolerated:
  "resolve_company_name rt d dflt = Inr c \<Longrightarrow> report_info_tolerated d"
proof (cases d)
  case (JObj kvs)
  assume a: "resolve_company_name rt d dflt = Inr c"
  show ?thesis
  proof (cases "map_of kvs ''report_info''")
    case None
    then show ?thesis by (simp add: JObj)
  next
    case (Some v)
    show ?thesis
    proof (cases "truthy v")
      case True
      with a Some show ?thesis unfolding JObj by (cases v) simp_all
    next
      case False
      with Some show ?thesis by (simp add: JObj)
    qed
  qed
qed simp_all

lemma resolve_fallback:
  assumes "List.map_filter (trimmed_name rt) (probes d) = []"
    and "resolve_company_name rt d dflt = Inr c"
  shows "c = dflt"
  using resolve_spec [OF resolve_Inr_tolerated [OF assms(2)], of rt dflt] assms
  by (simp add: spec_resolve_def)

section \<open>The text of the generated document\<close>

lemma starts_with_append: "starts_with (p @ r) p"
  by (simp add: starts_with_def)

lemma is_substring_prefix: "starts_with s p \<Longrightarrow> is_substring p s"
  by (cases s) (auto simp: starts_with_def)

lemma is_substring_mid: "is_substring p (a @ p @ b)"
proof (induction a)
  case Nil
  show ?case using is_substring_prefix [OF starts_with_append [of p b]] by simp
next
  case (Cons x a)
  then show ?case by simp
qed

lemma unlines_append: "unlines (a @ b) = unlines a @ unlines b"
  by (simp add: unlines_def)

lemma lines_in_html:
  assumes "report_lines s = a @ ls @ b" and "unlines ls = x @ [CHR 0x0A]"
  shows "is_substring x (html_template s now)"
proof -
  have "html_template s now =
      ([CHR 0x0A] @ unlines a) @ x @ ([CHR 0x0A] @ unlines b @ unlines (footer_lines now))"
    by (simp add: html_template_def assms unlines_append)
  then show ?thesis by (simp only: is_substring_mid)
qed

lemma html_head: "starts_with (html_template s now) (document_head (company_slot s))"
proof -
  have "html_template s now =
      document_head (company_slot s) @
      unlines (drop 5 (report_lines s)) @ unlines (footer_lines now)"
    by (simp add: html_template_def report_lines_def unlines_def document_head_def)
  then show ?thesis by (simp only: starts_with_append)
qed

lemma html_h1: "is_substring (''<h1>'' @ company_slot s @ ''</h1>'') (html_template s now)"
proof (rule lines_in_html)
  show "report_lines s = take 25 (report_lines s) @
      [''<h1>'' @ company_slot s @ ''</h1>''] @ drop 26 (report_lines s)"
    by (simp add: report_lines_def)
  show "unlines [''<h1>'' @ company_slot s @ ''</h1>''] =
      (''<h1>'' @ company_slot s @ ''</h1>'') @ [CHR 0x0A]"
    by (simp add: unlines_def)
qed

lemma html_integrity_card:
  "is_substring (card_text ''Integrity Score'' (int_score_slot s @ ''%'') (int_rating_slot s))
     (html_template s now)"
proof (rule lines_in_html)
  show "report_lines s = take 29 (report_lines s) @
      [''<h2>Integrity Score</h2>'',
       ''<p>'' @ int_score_slot s @ ''% '' @ em_dash @ '' '' @ int_rating_slot s @ ''</p>''] @
      drop 31 (report_lines s)"
    by (simp add: report_lines_def)
  show "unlines [''<h2>Integrity Score</h2>'',
       ''<p>'' @ int_score_slot s @ ''% '' @ em_dash @ '' '' @ int_rating_slot s @ ''</p>''] =
      card_text ''Integrity Score'' (int_score_slot s @ ''%'') (int_rating_slot s) @ [CHR 0x0A]"
    by (simp add: unlines_def card_text_def em_dash_def)
qed

lemma html_volatility_card:
  "is_substring (card_text ''Volatility'' (vol_index_slot s @ ''%'') (vol_level_slot s))
     (html_template s now)"
proof (rule lines_in_html)
  show "report_lines s = take 34 (report_lines s) @
      [''<h2>Volatility</h2>'',
       ''<p>'' @ vol_index_slot s @ ''% '' @ em_dash @ '' '' @ vol_level_slot s @ ''</p>''] @
      drop 36 (report_lines s)"
    by (simp add: report_lines_def)
  show "unlines [''<h2>Volatility</h2>'',
       ''<p>'' @ vol_index_slot s @ ''% '' @ em_dash @ '' '' @ vol_level_slot s @ ''</p>''] =
      card_text ''Volatility'' (vol_index_slot s @ ''%'') (vol_level_slot s) @ [CHR 0x0A]"
    by (simp add: unlines_def card_text_def em_dash_def)
qed

lemma html_kite_card:
  "is_substring (card_text ''Kite Flying Risk'' (kite_score_slot s) (kite_level_slot s))
     (html_template s now)"
proof (rule lines_in_html)
  show "report_lines s = take 39 (report_lines s) @
      [''<h2>Kite Flying Risk</h2>'',
       ''<p>'' @ kite_score_slot s @ '' '' @ em_dash @ '' '' @ kite_level_slot s @ ''</p>''] @
      drop 41 (report_lines s)"
    by (simp add: report_lines_def)
  show "unlines [''<h2>Kite Flying Risk</h2>'',
       ''<p>'' @ kite_score_slot s @ '' '' @ em_dash @ '' '' @ kite_level_slot s @ ''</p>''] =
      card_text ''Kite Flying Risk'' (kite_score_slot s) (kite_level_slot s) @ [CHR 0x0A]"
    by (simp add: unlines_def card_text_def em_dash_def)
qed

lemma html_items:
  "is_substring (item_list (observation_items_slot s)) (html_template s now)"
proof (rule lines_in_html)
  show "report_lines s = take 45 (report_lines s) @
      [''<ul>'', observation_items_slot s, ''</ul>''] @ drop 48 (report_lines s)"
    by (simp add: report_lines_def)
  show "unlines [''<ul>'', observation_items_slot s, ''</ul>''] =
      item_list (observation_items_slot s) @ [CHR 0x0A]"
    by (simp add: unlines_def item_list_def)
qed

text \<open>
  Whenever the generator returns a document, the document begins with the head for
  the resolved company name and contains the heading with that name, the three cards
  and the list of observations, each value put in as \<open>str\<close> gives it.
\<close>

lemma generated_document:
  assumes "generate_interactive_html rt d = Inr h"
  shows "\<exists>c os t.
      resolve_company_name rt d ''Company'' = Inr c \<and>
      py_iter (nested d ''observations'' ''positive'' (JArr [])) = Inr os \<and>
      format_0f (nested d ''volatility'' ''overall_index'' (JInt 0)) = Inr t \<and>
      starts_with h (document_head c) \<and>
      is_substring (''<h1>'' @ c @ ''</h1>'') h \<and>
      is_substring
        (card_text ''Integrity Score''
           (py_str rt (nested d ''integrity_score'' ''score'' (JInt 0)) @ ''%'')
           (py_str rt (nested d ''integrity_score'' ''rating'' (JStr ''N/A'')))) h \<and>
      is_substring
        (card_text ''Volatility'' (t @ ''%'')
           (py_str rt (nested d ''volatility'' ''overall_level'' (JStr ''LOW'')))) h \<and>
      is_substring
        (card_text ''Kite Flying Risk''
           (py_str rt (nested d ''kite_flying'' ''risk_score'' (JInt 0)))
           (py_str rt (nested d ''kite_flying'' ''risk_level'' (JStr ''LOW'')))) h \<and>
      is_substring
        (item_list (concat (map (\<lambda>item. ''<li>'' @ py_str rt item @ ''</li>'') os))) h"
proof -
  from assms obtain s where s: "template_slots rt d = Inr s"
    and h: "h = html_template s (now_isoformat rt)"
    by (auto simp: generate_interactive_html_def elim!: py_bindE)
  from template_slots_Inr [OF s] obtain os where
    c: "resolve_company_name rt d ''Company'' = Inr (company_slot s)"
    and i: "py_iter (nested d ''observations'' ''positive'' (JArr [])) = Inr os"
    and f: "format_0f (nested d ''volatility'' ''overall_index'' (JInt 0)) = Inr (vol_index_slot s)"
    and e: "int_score_slot s = py_str rt (nested d ''integrity_score'' ''score'' (JInt 0))"
      "int_rating_slot s = py_str rt (nested d ''integrity_score'' ''rating'' (JStr ''N/A''))"
      "vol_level_slot s = py_str rt (nested d ''volatility'' ''overall_level'' (JStr ''LOW''))"
      "kite_score_slot s = py_str rt (nested d ''kite_flying'' ''risk_score'' (JInt 0))"
      "kite_level_slot s = py_str rt (nested d ''kite_flying'' ''risk_level'' (JStr ''LOW''))"
      "observation_items_slot s =
         concat (map (\<lambda>item. ''<li>'' @ py_str rt item @ ''</li>'') os)"
    by blast
  show ?thesis
    using c i f
      html_head [of s "now_isoformat rt"] html_h1 [of s "now_isoformat rt"]
      html_integrity_card [of s "now_isoformat rt"]
      html_volatility_card [of s "now_isoformat rt"]
      html_kite_card [of s "now_isoformat rt"] html_items [of s "now_isoformat rt"]
    unfolding h e by blast
qed

section \<open>Markup in the standalone report\<close>






section \<open>The summary metrics\<close>


lemma round_half_even_of_int [simp]: "round_half_even (of_int n) = n"
  by (simp add: round_half_even_def)











section \<open>The fallback names\<close>

lemma download_file_button:
  "(f, m) \<in> set (List.map_filter download_file es) \<Longrightarrow>
     \<exists>l c. StDownloadButton l c f m \<in> set es"
proof (induction es)
  case Nil
  then show ?case by (simp add: List.map_filter_simps)
next
  case (Cons e es)
  then show ?case by (cases e) (auto simp: List.map_filter_simps)
qed

text \<open>
  Claim C10. In a document where no candidate qualifies, a generated report begins
  with the head titled \<open>Company\<close> and contains the heading \<open>Company\<close>, while the
  banner, whenever it is shown, reads \<open>Unknown\<close> and every download button offers
  \<open>Unknown_analysis.json\<close> or \<open>Unknown_analysis.html\<close>. The resolver compares
  lowercase forms, and the lowercase forms of both fallback names are in its
  blocklist.
\<close>

theorem fallback_names:
  assumes "List.map_filter (trimmed_name rt) (probes d) = []"
  shows "(\<forall>h. generate_interactive_html rt d = Inr h \<longrightarrow>
            starts_with h (document_head ''Company'') \<and>
            is_substring ''<h1>Company</h1>'' h) \<and>
         (\<forall>msg. StSuccess msg \<in> set (fst (main rt (ParsedJson d))) \<longrightarrow>
            (\<exists>sv. msg = ''Loaded: Unknown (Schema v'' @ sv @ '')'')) \<and>
         (\<forall>l c f m. StDownloadButton l c f m \<in> set (fst (main rt (ParsedJson d))) \<longrightarrow>
            f = ''Unknown_analysis.json'' \<or> f = ''Unknown_analysis.html'') \<and>
         ascii_lower ''Company'' \<in> set blocklist \<and> ascii_lower ''Unknown'' \<in> set blocklist"
proof -
  have "starts_with h (document_head ''Company'') \<and> is_substring ''<h1>Company</h1>'' h"
    if "generate_interactive_html rt d = Inr h" for h
  proof -
    from generated_document [OF that] obtain c where
      c: "resolve_company_name rt d ''Company'' = Inr c"
      and h: "starts_with h (document_head c)" "is_substring (''<h1>'' @ c @ ''</h1>'') h"
      by blast
    from resolve_fallback [OF assms c] have "c = ''Company''" .
    with h show ?thesis by simp
  qed
  moreover have "\<exists>sv. msg = ''Loaded: Unknown (Schema v'' @ sv @ '')''"
    if "StSuccess msg \<in> set (fst (main rt (ParsedJson d)))" for msg
  proof -
    from main_events [OF that] have "StSuccess msg \<in> set (fst (render_report rt d))"
      by simp
    from render_report_success [OF this] obtain sv c where
      c: "resolve_company_name rt d ''Unknown'' = Inr c"
      and msg: "msg = ''Loaded: '' @ c @ '' (Schema v'' @ sv @ '')''" by blast
    from resolve_fallback [OF assms c] have "c = ''Unknown''" .
    with msg show ?thesis by simp
  qed
  moreover have "f = ''Unknown_analysis.json'' \<or> f = ''Unknown_analysis.html''"
    if "StDownloadButton l c f m \<in> set (fst (main rt (ParsedJson d)))" for l c f m
  proof -
    from main_events [OF that] have "StDownloadButton l c f m \<in> set (fst (render_report rt d))"
      by simp
    from render_report_download [OF this] obtain company where
      c: "resolve_company_name rt d ''Unknown'' = Inr company"
      and f: "f = replace_spaces company @ ''_analysis.json'' \<or>
       f = replace_spaces company @ ''_analysis.html''" by blast
    from resolve_fallback [OF assms c] have "company = ''Unknown''" .
    with f show ?thesis by (simp add: replace_spaces_def)
  qed
  moreover have "ascii_lower ''Company'' \<in> set blocklist" "ascii_lower ''Unknown'' \<in> set blocklist"
    by (simp_all add: builtin_defs)
  ultimately show ?thesis by blast
qed

theorem fallback_names_witness:
  "List.map_filter (trimmed_name plain_runtime) (probes placeholder_document) = [] \<and>
   (\<exists>h. generate_interactive_html plain_runtime placeholder_document = Inr h \<and>
        starts_with h (document_head ''Company'') \<and> is_substring ''<h1>Company</h1>'' h) \<and>
   StSuccess ''Loaded: Unknown (Schema v4.0)''
     \<in> set (fst (main plain_runtime (ParsedJson placeholder_document))) \<and>
   (\<exists>l c. StDownloadButton l c ''Unknown_analysis.json'' ''application/json''
     \<in> set (fst (main plain_runtime (ParsedJson placeholder_document)))) \<and>
   (\<exists>l c. StDownloadButton l c ''Unknown_analysis.html'' ''text/html''
     \<in> set (fst (main plain_runtime (ParsedJson placeholder_document))))"
proof -
  have n: "List.map_filter (trimmed_name plain_runtime) (probes placeholder_document) = []"
    by code_simp
  have "map_sum id company_slot (template_slots plain_runtime placeholder_document)
          = Inr ''Company''"
    by code_simp
  then obtain h where h: "generate_interactive_html plain_runtime placeholder_document = Inr h"
    by (cases "template_slots plain_runtime placeholder_document")
       (auto simp: generate_interactive_html_def)
  have b: "StSuccess ''Loaded: Unknown (Schema v4.0)''
     \<in> set (fst (main plain_runtime (ParsedJson placeholder_document)))"
    by code_simp
  have "List.map_filter download_file (fst (main plain_runtime (ParsedJson placeholder_document)))
          = [(''Unknown_analysis.json'', ''application/json''),
             (''Unknown_analysis.html'', ''text/html'')]"
    by code_simp
  then have dl: "\<exists>l c. StDownloadButton l c ''Unknown_analysis.json'' ''application/json''
     \<in> set (fst (main plain_runtime (ParsedJson placeholder_document)))"
    "\<exists>l c. StDownloadButton l c ''Unknown_analysis.html'' ''text/html''
     \<in> set (fst (main plain_runtime (ParsedJson placeholder_document)))"
    by (simp_all add: download_file_button)
  from fallback_names [OF n] h n b dl show ?thesis
    by blast
qed

section \<open>The JSON export\<close>

text \<open>
  The JSON download button, whenever it is shown, offers \<open>json.dumps(data, indent=2)\<close>
  under the resolved company name with spaces replaced by underscores, followed by
  \<open>_analysis.json\<close>.
\<close>

lemma json_download_button:
  assumes "StDownloadButton l c f ''application/json'' \<in> set (fst (main rt (ParsedJson d)))"
  shows "c = json_dumps rt d \<and>
         (\<exists>company. resolve_company_name rt d ''Unknown'' = Inr company \<and>
            f = replace_spaces company @ ''_analysis.json'')"
proof -
  from main_events [OF assms]
  have r: "StDownloadButton l c f ''application/json'' \<in> set (fst (render_report rt d))"
    by simp
  then obtain kvs where d: "d = JObj kvs"
    by (auto dest: render_report_mapping)
  show ?thesis
    using r unfolding d render_report_def
    apply (simp only: py_get_top in_attempt fst_emit set_simps insert_iff)
    apply (clarsimp simp del: py_get.simps resolve_company_name.simps)
    done
qed

end
